theory Spec2Isabelle
  imports Main "HOL-Library.Sublist"
begin

section \<open>The orchestration core of roop (\<^verbatim>\<open>roop/core.py\<close>)\<close>

text \<open>
  The core is a sequential script over process-wide settings (\<^verbatim>\<open>roop.globals\<close>) that
  calls into collaborators living outside \<^verbatim>\<open>core.py\<close>: the accelerator runtime, the
  frame processor modules, the ffmpeg helpers of \<^verbatim>\<open>roop.utilities\<close> and the operating
  system. The embedding makes both sides explicit:
  \<^item> what a collaborator answers is a field of the record \<open>env\<close> (a parameter of every
    function, never fixed here);
  \<^item> what the core does to the outside is an \<open>event\<close>; a function of the core returns the
    list of events it performs, in program order. Every call of the source is synchronous,
    so an event stands for a call together with its return.
  Collaborators are taken to return normally: \<^verbatim>\<open>core.py\<close> has no \<^verbatim>\<open>try\<close> and no
  \<^verbatim>\<open>raise\<close> of its own; its only exits are \<^verbatim>\<open>return\<close>, \<^verbatim>\<open>sys.exit()\<close> in
  \<^verbatim>\<open>destroy\<close> and the usage error of \<^verbatim>\<open>argparse\<close>.
\<close>

subsection \<open>Strings\<close>

text \<open>
  \<^verbatim>\<open>str.lower()\<close> on the ASCII letters (provider tokens are ASCII identifiers such as
  \<^verbatim>\<open>CUDAExecutionProvider\<close>); every other character is left as it is.
\<close>

definition lower_char :: "char \<Rightarrow> char" where
  "lower_char c =
     (case map_of (zip ''ABCDEFGHIJKLMNOPQRSTUVWXYZ'' ''abcdefghijklmnopqrstuvwxyz'') c of
        Some l \<Rightarrow> l
      | None \<Rightarrow> c)"

definition lower :: "string \<Rightarrow> string" where
  "lower s = map lower_char s"

text \<open>
  \<^verbatim>\<open>s.replace(old, new)\<close>: every non-overlapping occurrence of \<open>old\<close>, found from the
  left, is replaced. With an empty \<open>old\<close> Python puts \<open>new\<close> before every character and at
  the end.
\<close>

function replace :: "string \<Rightarrow> string \<Rightarrow> string \<Rightarrow> string" where
  "replace old new s =
     (if old = [] then concat (map (\<lambda>c. new @ [c]) s) @ new
      else case s of
             [] \<Rightarrow> []
           | c # cs \<Rightarrow>
               if prefix old s then new @ replace old new (drop (length old) s)
               else c # replace old new cs)"
  by pat_completeness auto
termination
  by (relation "measure (\<lambda>(old, new, s). length s)") (auto simp: neq_Nil_conv)

declare replace.simps [simp del]

text \<open>\<^verbatim>\<open>a in b\<close> on two strings is the contiguous-substring test, \<^const>\<open>sublist\<close>.\<close>

subsection \<open>The collaborators\<close>

type_synonym path = "string option"
  \<comment> \<open>\<^verbatim>\<open>Optional[str]\<close>: the settings hold \<^verbatim>\<open>None\<close> for a path that was not given\<close>

type_synonym fps = string
  \<comment> \<open>the float \<^verbatim>\<open>detect_fps\<close> returns, kept as the text an f-string prints for it: the
      core only prints it and hands it on\<close>

text \<open>
  A frame processor module, as far as the core sees it: its display name and what its
  \<^verbatim>\<open>pre_check()\<close> and \<^verbatim>\<open>pre_start()\<close> answer. Each is called at most once per stage
  and run, so one answer per stage covers a stateful module too.

  A run asks the runtime for its providers, \<^verbatim>\<open>get_frame_processors_modules\<close> and
  \<^verbatim>\<open>detect_fps\<close> more than once, each time with the same argument; here they are a
  value and functions of that argument, so they answer the same each time.
\<close>

record stage =
  NAME :: string
  stage_pre_check :: bool
  stage_pre_start :: bool

record env =
  get_available_providers :: "string list"
    \<comment> \<open>\<^verbatim>\<open>onnxruntime.get_available_providers()\<close>\<close>
  version_info :: "nat \<times> nat"
    \<comment> \<open>major and minor of \<^verbatim>\<open>sys.version_info\<close>\<close>
  which_ffmpeg :: "string option"
    \<comment> \<open>\<^verbatim>\<open>shutil.which('ffmpeg')\<close>\<close>
  list_physical_devices_GPU :: "string list"
  platform_system :: string
  normalize_output_path :: "path \<Rightarrow> path \<Rightarrow> path \<Rightarrow> path"
  get_frame_processors_modules :: "string list \<Rightarrow> stage list"
  has_image_extension :: "path \<Rightarrow> bool"
  is_image :: "path \<Rightarrow> bool"
  is_video :: "path \<Rightarrow> bool"
  detect_fps :: "path \<Rightarrow> fps"
  get_temp_frame_paths :: "path \<Rightarrow> string list"
    \<comment> \<open>the frames found in the workspace after extraction\<close>
  create_video :: "path \<Rightarrow> fps option \<Rightarrow> bool"
    \<comment> \<open>the second argument is \<open>None\<close> when the call leaves the rate to the default\<close>

subsection \<open>Execution providers\<close>

definition encode_execution_providers :: "string list \<Rightarrow> string list" where
  "encode_execution_providers execution_providers =
     map (\<lambda>execution_provider. lower (replace ''ExecutionProvider'' '''' execution_provider))
       execution_providers"

definition decode_execution_providers :: "env \<Rightarrow> string list \<Rightarrow> string list" where
  "decode_execution_providers e execution_providers =
     map fst
       (filter
          (\<lambda>(provider, encoded_execution_provider).
             list_ex (\<lambda>execution_provider. sublist execution_provider encoded_execution_provider)
               execution_providers)
          (zip (get_available_providers e)
               (encode_execution_providers (get_available_providers e))))"

definition suggest_execution_providers :: "env \<Rightarrow> string list" where
  "suggest_execution_providers e = encode_execution_providers (get_available_providers e)"

definition suggest_execution_thread_count :: "env \<Rightarrow> int" where
  "suggest_execution_thread_count e =
     (if ''CUDAExecutionProvider'' \<in> set (get_available_providers e) then 4 else 1)"

subsection \<open>Settings and command line\<close>

text \<open>
  \<^verbatim>\<open>roop.globals\<close>, restricted to the settings \<^verbatim>\<open>core.py\<close> reads or computes. The
  tuning values of the processors (\<^verbatim>\<open>many_faces\<close>, \<^verbatim>\<open>reference_face_position\<close>,
  the encoder settings, ...) are copied from the parsed arguments unchanged and are read
  only outside \<^verbatim>\<open>core.py\<close>.
\<close>

record globals =
  source_path :: path
  target_path :: path
  output_path :: path
  headless :: bool
  frame_processors :: "string list"
  keep_fps :: bool
  keep_temp :: bool
  skip_audio :: bool
  max_memory :: int
  execution_providers :: "string list"
  execution_thread_count :: int
  execution_queue_count :: int

text \<open>
  What the command line holds for each declared option: the value of a valued option when
  it occurs, the words of a \<^verbatim>\<open>nargs='+'\<close> option, and for a flag whether it occurs.
  A command line that \<^verbatim>\<open>argparse\<close> turns down before it comes to these options (an
  unknown option, a value that is no integer, \<^verbatim>\<open>--version\<close>) is no value of the
  record: it ends the process inside \<^verbatim>\<open>program.parse_args()\<close> with no setting
  written.
\<close>

record cmdline =
  arg_source :: "string option"
  arg_target :: "string option"
  arg_output :: "string option"
  arg_frame_processors :: "string list option"
  arg_keep_fps :: bool
  arg_keep_temp :: bool
  arg_skip_audio :: bool
  arg_max_memory :: "int option"
  arg_execution_providers :: "string list option"
  arg_execution_thread_count :: "int option"
  arg_execution_queue_count :: "int option"

datatype error = ArgumentError
  \<comment> \<open>\<^verbatim>\<open>argparse\<close> prints the usage and leaves with \<^verbatim>\<open>sys.exit(2)\<close>\<close>

text \<open>The \<^verbatim>\<open>argparse\<close> actions the declarations use.\<close>

definition store :: "'a \<Rightarrow> 'a option \<Rightarrow> 'a" where
  "store dflt given = (case given of None \<Rightarrow> dflt | Some v \<Rightarrow> v)"

definition store_true :: "bool \<Rightarrow> bool \<Rightarrow> bool" where
  "store_true dflt occurs = (if occurs then True else dflt)"

definition one_or_more :: "string list option \<Rightarrow> bool" where
  \<comment> \<open>\<^verbatim>\<open>nargs='+'\<close>: an option that occurs carries at least one word\<close>
  "one_or_more given = (given \<noteq> Some [])"

definition in_choices :: "string list \<Rightarrow> string list option \<Rightarrow> bool" where
  \<comment> \<open>\<^verbatim>\<open>choices\<close>: every word given is one of the choices; a default is not checked\<close>
  "in_choices choices given =
     (case given of None \<Rightarrow> True | Some ws \<Rightarrow> list_all (\<lambda>w. w \<in> set choices) ws)"

definition parse_args :: "env \<Rightarrow> cmdline \<Rightarrow> error + globals" where
  "parse_args e c =
     (if \<not> one_or_more (arg_frame_processors c) then Inl ArgumentError
      else if \<not> one_or_more (arg_execution_providers c) then Inl ArgumentError
      else if \<not> in_choices (suggest_execution_providers e) (arg_execution_providers c)
        then Inl ArgumentError
      else
        let source = arg_source c;
            target = arg_target c;
            output = normalize_output_path e source target (arg_output c)
        in Inr \<lparr>
          source_path = source,
          target_path = target,
          output_path = output,
          headless = (source \<noteq> None \<and> target \<noteq> None \<and> output \<noteq> None),
          frame_processors = store [''face_swapper''] (arg_frame_processors c),
          keep_fps = store_true True (arg_keep_fps c),
          keep_temp = store_true False (arg_keep_temp c),
          skip_audio = store_true False (arg_skip_audio c),
          max_memory = store 16 (arg_max_memory c),
          execution_providers =
            decode_execution_providers e (store [''cpu''] (arg_execution_providers c)),
          execution_thread_count =
            store (suggest_execution_thread_count e) (arg_execution_thread_count c),
          execution_queue_count = store 1 (arg_execution_queue_count c) \<rparr>)"

subsection \<open>Events\<close>

datatype os_effect =
    SetVirtualDeviceConfiguration string int
  | SetProcessWorkingSetSize int
  | Setrlimit_DATA int

datatype event =
    Signal_SIGINT
      \<comment> \<open>\<^verbatim>\<open>signal.signal(signal.SIGINT, ...)\<close> installs \<^verbatim>\<open>destroy\<close>\<close>
  | Print string
  | StagePreCheck string
  | StagePreStart string
  | ProcessImage string path path path
  | ProcessVideo string path "string list"
  | PostProcess string
  | Copy2 path path
  | CreateTemp path
  | ExtractFrames path "fps option"
  | CreateVideo path "fps option"
  | MoveTemp path path
  | RestoreAudio path path
  | CleanTemp path
  | LimitResources "os_effect list"
  | UiInit
  | SysExit int

definition update_status :: "string \<Rightarrow> string \<Rightarrow> event" where
  "update_status message scope = Print (''['' @ scope @ ''] '' @ message)"

abbreviation CORE :: string where
  "CORE \<equiv> ''ROOP.CORE''"

text \<open>Python's truth value of an \<^verbatim>\<open>Optional[str]\<close>: \<^verbatim>\<open>None\<close> and \<^verbatim>\<open>''\<close> are false.\<close>

definition truthy :: "string option \<Rightarrow> bool" where
  "truthy p = (case p of None \<Rightarrow> False | Some s \<Rightarrow> s \<noteq> [])"

subsection \<open>Resource limits and the core's own readiness check\<close>

text \<open>
  The value of the call is the list of requests it makes to TensorFlow and to the
  operating system. \<^verbatim>\<open>ctypes.c_size_t\<close> keeps its argument modulo \<open>2 ^ 64\<close>.
\<close>

definition limit_resources :: "env \<Rightarrow> globals \<Rightarrow> os_effect list" where
  "limit_resources e g =
     map (\<lambda>gpu. SetVirtualDeviceConfiguration gpu 1024) (list_physical_devices_GPU e) @
     (if max_memory g \<noteq> 0 then
        let memory = max_memory g * 1024 ^ 3;
            memory = (if lower (platform_system e) = ''darwin''
                      then max_memory g * 1024 ^ 6 else memory)
        in if lower (platform_system e) = ''windows''
           then [SetProcessWorkingSetSize (memory mod 2 ^ 64)]
           else [Setrlimit_DATA memory]
      else [])"

definition version_lt :: "nat \<times> nat \<Rightarrow> nat \<times> nat \<Rightarrow> bool" where
  "version_lt v w = (fst v < fst w \<or> (fst v = fst w \<and> snd v < snd w))"

definition pre_check :: "env \<Rightarrow> event list \<times> bool" where
  "pre_check e =
     (if version_lt (version_info e) (3, 10) then
        ([update_status ''Python version is not supported - please upgrade to 3.10 or higher.''
            CORE], False)
      else if \<not> truthy (which_ffmpeg e) then
        ([update_status ''ffmpeg is not installed.'' CORE], False)
      else ([], True))"

subsection \<open>The pipeline: \<^verbatim>\<open>start\<close>\<close>

text \<open>
  The three loops over the configured stages. A loop that can leave the function returns,
  next to its events, whether it ran to its end.
\<close>

fun pre_start_loop :: "stage list \<Rightarrow> event list \<times> bool" where
  "pre_start_loop [] = ([], True)"
| "pre_start_loop (frame_processor_module # rest) =
     (if \<not> stage_pre_start frame_processor_module then
        ([StagePreStart (NAME frame_processor_module)], False)
      else case pre_start_loop rest of
             (events, finished) \<Rightarrow>
               (StagePreStart (NAME frame_processor_module) # events, finished))"

fun process_image_loop :: "globals \<Rightarrow> stage list \<Rightarrow> event list" where
  "process_image_loop g [] = []"
| "process_image_loop g (frame_processor_module # rest) =
     [update_status ''Progressing...'' (NAME frame_processor_module),
      ProcessImage (NAME frame_processor_module) (source_path g) (output_path g) (output_path g),
      PostProcess (NAME frame_processor_module)]
     @ process_image_loop g rest"

fun process_video_loop :: "globals \<Rightarrow> string list \<Rightarrow> stage list \<Rightarrow> event list" where
  "process_video_loop g temp_frame_paths [] = []"
| "process_video_loop g temp_frame_paths (frame_processor_module # rest) =
     [update_status ''Progressing...'' (NAME frame_processor_module),
      ProcessVideo (NAME frame_processor_module) (source_path g) temp_frame_paths,
      PostProcess (NAME frame_processor_module)]
     @ process_video_loop g temp_frame_paths rest"

text \<open>The blocks of the video path, named after the comments that head them.\<close>

definition extract_frames_block :: "env \<Rightarrow> globals \<Rightarrow> event list" where
  "extract_frames_block e g =
     (if keep_fps g then
        let fps = detect_fps e (target_path g)
        in [update_status (''Extracting frames with '' @ fps @ '' FPS...'') CORE,
            ExtractFrames (target_path g) (Some fps)]
      else
        [update_status ''Extracting frames with 30 FPS...'' CORE,
         ExtractFrames (target_path g) None])"

definition create_video_block :: "env \<Rightarrow> globals \<Rightarrow> event list" where
  "create_video_block e g =
     (if keep_fps g then
        let fps = detect_fps e (target_path g)
        in [update_status (''Creating video with '' @ fps @ '' FPS...'') CORE,
            CreateVideo (target_path g) (Some fps)]
           @ (if \<not> create_video e (target_path g) (Some fps)
              then [update_status ''Creating video failed...'' CORE] else [])
      else
        [update_status ''Creating video with 30 FPS...'' CORE,
         CreateVideo (target_path g) None]
        @ (if \<not> create_video e (target_path g) None
           then [update_status ''Creating video failed...'' CORE] else []))"

definition handle_audio_block :: "globals \<Rightarrow> event list" where
  "handle_audio_block g =
     (if skip_audio g then
        [MoveTemp (target_path g) (output_path g),
         update_status ''Skipping audio...'' CORE]
      else
        [if keep_fps g then update_status ''Restoring audio...'' CORE
         else update_status ''Restoring audio might cause issues as fps are not kept...'' CORE,
         RestoreAudio (target_path g) (output_path g)])"

definition clean_temp_block :: "globals \<Rightarrow> event list" where
  "clean_temp_block g =
     [update_status ''Cleaning temporary resources...'' CORE,
      CleanTemp (target_path g)]"

definition validate_video_block :: "env \<Rightarrow> globals \<Rightarrow> event list" where
  "validate_video_block e g =
     [if is_video e (target_path g) then update_status ''Processing to video succeed!'' CORE
      else update_status ''Processing to video failed!'' CORE]"

definition validate_image_block :: "env \<Rightarrow> globals \<Rightarrow> event list" where
  "validate_image_block e g =
     [if is_image e (target_path g) then update_status ''Processing to image succeed!'' CORE
      else update_status ''Processing to image failed!'' CORE]"

definition start :: "env \<Rightarrow> globals \<Rightarrow> event list" where
  "start e g =
     (let modules = get_frame_processors_modules e (frame_processors g) in
      case pre_start_loop modules of
        (events, False) \<Rightarrow> events
      | (events, True) \<Rightarrow>
          events @
          (if has_image_extension e (target_path g) then
             [Copy2 (target_path g) (output_path g)]
             @ process_image_loop g modules
             @ validate_image_block e g
           else
             [update_status ''Creating temporary resources...'' CORE,
              CreateTemp (target_path g)]
             @ extract_frames_block e g
             @ (let temp_frame_paths = get_temp_frame_paths e (target_path g) in
                if temp_frame_paths \<noteq> [] then
                  process_video_loop g temp_frame_paths modules
                  @ create_video_block e g
                  @ handle_audio_block g
                  @ clean_temp_block g
                  @ validate_video_block e g
                else
                  [update_status ''Temporary frames not found...'' CORE])))"

subsection \<open>The interrupt handler and the entry point\<close>

definition destroy :: "globals \<Rightarrow> event list" where
  "destroy g =
     (if truthy (target_path g) then [CleanTemp (target_path g)] else [])
     @ [SysExit 0]"

fun pre_check_loop :: "stage list \<Rightarrow> event list \<times> bool" where
  "pre_check_loop [] = ([], True)"
| "pre_check_loop (frame_processor # rest) =
     (if \<not> stage_pre_check frame_processor then
        ([StagePreCheck (NAME frame_processor)], False)
      else case pre_check_loop rest of
             (events, finished) \<Rightarrow> (StagePreCheck (NAME frame_processor) # events, finished))"

text \<open>
  \<^verbatim>\<open>run\<close>. Its first event is the first statement of \<^verbatim>\<open>parse_args\<close>, which
  installs the interrupt handler before the arguments are read. Without the three paths on
  the command line the interactive front-end takes over (\<^verbatim>\<open>ui.init()\<close>); what it does
  afterwards is not part of \<^verbatim>\<open>core.py\<close>.
\<close>

definition run :: "env \<Rightarrow> cmdline \<Rightarrow> event list" where
  "run e c =
     Signal_SIGINT #
     (case parse_args e c of
        Inl err \<Rightarrow> [SysExit 2]
      | Inr g \<Rightarrow>
          (case pre_check e of
             (events, False) \<Rightarrow> events
           | (events, True) \<Rightarrow>
               events @
               (case pre_check_loop (get_frame_processors_modules e (frame_processors g)) of
                  (checks, False) \<Rightarrow> checks
                | (checks, True) \<Rightarrow>
                    checks
                    @ [LimitResources (limit_resources e g)]
                    @ (if headless g then start e g else [UiInit]))))"

subsection \<open>Classes of events\<close>

text \<open>
  The events that create, write, move or delete files, or run a stage's processing: all a
  run does to the filesystem once preflight is over.
\<close>

fun file_effect :: "event \<Rightarrow> bool" where
  "file_effect (Copy2 _ _) = True"
| "file_effect (CreateTemp _) = True"
| "file_effect (ExtractFrames _ _) = True"
| "file_effect (ProcessImage _ _ _ _) = True"
| "file_effect (ProcessVideo _ _ _) = True"
| "file_effect (PostProcess _) = True"
| "file_effect (CreateVideo _ _) = True"
| "file_effect (MoveTemp _ _) = True"
| "file_effect (RestoreAudio _ _) = True"
| "file_effect (CleanTemp _) = True"
| "file_effect _ = False"

text \<open>The calls into a stage after preflight.\<close>

fun stage_work :: "event \<Rightarrow> bool" where
  "stage_work (ProcessImage _ _ _ _) = True"
| "stage_work (ProcessVideo _ _ _) = True"
| "stage_work (PostProcess _) = True"
| "stage_work _ = False"

fun is_limit_resources :: "event \<Rightarrow> bool" where
  "is_limit_resources (LimitResources _) = True"
| "is_limit_resources _ = False"

fun is_stage_pre_check :: "event \<Rightarrow> bool" where
  "is_stage_pre_check (StagePreCheck _) = True"
| "is_stage_pre_check _ = False"

fun after_limit :: "event \<Rightarrow> bool" where
  \<comment> \<open>a stage's \<^verbatim>\<open>pre_start\<close> or anything that touches files\<close>
  "after_limit (StagePreStart _) = True"
| "after_limit ev = file_effect ev"

text \<open>
  \<open>at_rate r\<close> holds of every event but an extraction or a reassembly that is asked for
  another rate than \<open>r\<close>; \<open>fallback_rate\<close> holds of the two calls that leave the rate to
  the default of 30.
\<close>

fun at_rate :: "fps option \<Rightarrow> event \<Rightarrow> bool" where
  "at_rate r (ExtractFrames _ x) = (x = r)"
| "at_rate r (CreateVideo _ x) = (x = r)"
| "at_rate r _ = True"

fun fallback_rate :: "event \<Rightarrow> bool" where
  "fallback_rate (ExtractFrames _ None) = True"
| "fallback_rate (CreateVideo _ None) = True"
| "fallback_rate _ = False"

subsection \<open>Concrete inputs\<close>

text \<open>
  A machine with a CUDA and a CPU provider, ffmpeg installed, two frames in the workspace
  after extraction; \<^verbatim>\<open>photo.jpg\<close> is an image, \<^verbatim>\<open>clip.mp4\<close> a video, every stage is
  ready.
\<close>

definition example_env :: env where
  "example_env = \<lparr>
     get_available_providers = [''CUDAExecutionProvider'', ''CPUExecutionProvider''],
     version_info = (3, 10),
     which_ffmpeg = Some ''/usr/bin/ffmpeg'',
     list_physical_devices_GPU = [],
     platform_system = ''Linux'',
     normalize_output_path = (\<lambda>source target output. output),
     get_frame_processors_modules =
       map (\<lambda>name. \<lparr>NAME = name, stage_pre_check = True, stage_pre_start = True\<rparr>),
     has_image_extension = (\<lambda>p. p = Some ''photo.jpg''),
     is_image = (\<lambda>p. p = Some ''photo.jpg''),
     is_video = (\<lambda>p. p = Some ''clip.mp4''),
     detect_fps = (\<lambda>p. ''24.0''),
     get_temp_frame_paths = (\<lambda>p. [''0001.jpg'', ''0002.jpg'']),
     create_video = (\<lambda>p rate. True) \<rparr>"

text \<open>
  \<^verbatim>\<open>-s face.png -t clip.mp4 -o out.mp4 --frame-processors face_swapper face_enhancer\<close>
\<close>

definition example_cmdline :: cmdline where
  "example_cmdline = \<lparr>
     arg_source = Some ''face.png'',
     arg_target = Some ''clip.mp4'',
     arg_output = Some ''out.mp4'',
     arg_frame_processors = Some [''face_swapper'', ''face_enhancer''],
     arg_keep_fps = False,
     arg_keep_temp = False,
     arg_skip_audio = False,
     arg_max_memory = None,
     arg_execution_providers = None,
     arg_execution_thread_count = None,
     arg_execution_queue_count = None \<rparr>"

text \<open>The settings \<^verbatim>\<open>parse_args\<close> computes from them.\<close>

definition example_globals :: globals where
  "example_globals = \<lparr>
     source_path = Some ''face.png'',
     target_path = Some ''clip.mp4'',
     output_path = Some ''out.mp4'',
     headless = True,
     frame_processors = [''face_swapper'', ''face_enhancer''],
     keep_fps = True,
     keep_temp = False,
     skip_audio = False,
     max_memory = 16,
     execution_providers = [''CPUExecutionProvider''],
     execution_thread_count = 4,
     execution_queue_count = 1 \<rparr>"

section \<open>Properties\<close>

subsection \<open>Evaluation\<close>

lemmas provider_defs =
  suggest_execution_providers_def encode_execution_providers_def
  decode_execution_providers_def lower_def lower_char_def replace.simps sublist_code

lemmas parse_defs =
  parse_args_def one_or_more_def in_choices_def store_def store_true_def
  suggest_execution_thread_count_def

lemmas block_defs =
  update_status_def extract_frames_block_def create_video_block_def handle_audio_block_def
  clean_temp_block_def validate_video_block_def validate_image_block_def

lemmas run_defs =
  run_def start_def destroy_def pre_check_def version_lt_def truthy_def limit_resources_def

lemma parse_args_example: "parse_args example_env example_cmdline = Inr example_globals"
  by (simp add: example_env_def example_cmdline_def example_globals_def parse_defs
        provider_defs)

subsection \<open>Execution providers\<close>

lemma map_fst_filter_zip_subseq: "subseq (map fst (filter P (zip xs ys))) xs"
proof (induction xs arbitrary: ys)
  case Nil
  show ?case by simp
next
  case (Cons x xs)
  show ?case
  proof (cases ys)
    case Nil
    then show ?thesis by simp
  next
    case (Cons y ys')
    with Cons.IH [of ys'] show ?thesis by auto
  qed
qed

lemma filter_zip_map:
  "map fst (filter (\<lambda>(p, q). Q q) (zip xs (map f xs))) = filter (\<lambda>p. Q (f p)) xs"
  by (induction xs) auto

text \<open>The comprehension keeps an available provider when some requested token occurs in
  its encoded name.\<close>

lemma decode_as_filter:
  "decode_execution_providers e req =
     filter (\<lambda>p. list_ex (\<lambda>t. sublist t (lower (replace ''ExecutionProvider'' '''' p))) req)
       (get_available_providers e)"
  unfolding decode_execution_providers_def encode_execution_providers_def
  by (rule filter_zip_map)

lemma decode_set_cong:
  "set req = set req' \<Longrightarrow>
   decode_execution_providers e req = decode_execution_providers e req'"
  by (simp add: decode_as_filter list_ex_iff)

lemma decode_drop_unmatched:
  "\<not> list_ex (sublist t) (suggest_execution_providers e) \<Longrightarrow>
   decode_execution_providers e (req1 @ t # req2) = decode_execution_providers e (req1 @ req2)"
  by (auto simp add: decode_as_filter list_ex_iff suggest_execution_providers_def
        encode_execution_providers_def intro!: filter_cong)

lemma decode_empty_iff:
  "decode_execution_providers e req = [] \<longleftrightarrow>
     \<not> list_ex (\<lambda>encoded. list_ex (\<lambda>t. sublist t encoded) req)
         (suggest_execution_providers e)"
  by (auto simp add: decode_as_filter list_ex_iff suggest_execution_providers_def
        encode_execution_providers_def filter_empty_conv)

text \<open>
  C3. Whatever is requested and whatever the runtime reports, the resolved providers are a
  sub-sequence of the runtime's list, in the runtime's order: the result depends on the
  request only as a set of tokens, so the order of the request plays no part. A token that
  occurs in no encoded provider name is dropped: the result is the one obtained without it,
  and the function has no error to return.
\<close>

theorem decode_execution_providers_runtime_order:
  "subseq (decode_execution_providers e req) (get_available_providers e) \<and>
   (set req = set req' \<longrightarrow>
      decode_execution_providers e req = decode_execution_providers e req') \<and>
   (\<not> list_ex (sublist t) (suggest_execution_providers e) \<longrightarrow>
      decode_execution_providers e (req1 @ t # req2) =
      decode_execution_providers e (req1 @ req2))"
proof (intro conjI impI)
  show "subseq (decode_execution_providers e req) (get_available_providers e)"
    unfolding decode_execution_providers_def by (rule map_fst_filter_zip_subseq)
next
  assume "set req = set req'"
  then show "decode_execution_providers e req = decode_execution_providers e req'"
    by (rule decode_set_cong)
next
  assume "\<not> list_ex (sublist t) (suggest_execution_providers e)"
  then show "decode_execution_providers e (req1 @ t # req2) =
      decode_execution_providers e (req1 @ req2)"
    by (rule decode_drop_unmatched)
qed

theorem decode_execution_providers_runtime_order_witness:
  "set [''cpu'', ''cuda''] = set [''cuda'', ''cpu''] \<and>
   \<not> list_ex (sublist ''tensorrt'') (suggest_execution_providers example_env) \<and>
   subseq (decode_execution_providers example_env [''cpu'', ''cuda''])
     (get_available_providers example_env) \<and>
   decode_execution_providers example_env [''cpu'', ''cuda''] =
     [''CUDAExecutionProvider'', ''CPUExecutionProvider''] \<and>
   decode_execution_providers example_env [''cpu'', ''cuda''] =
     decode_execution_providers example_env [''cuda'', ''cpu''] \<and>
   decode_execution_providers example_env ([''cpu''] @ ''tensorrt'' # [''cuda'']) =
     decode_execution_providers example_env ([''cpu''] @ [''cuda''])"
proof -
  have h1: "set [''cpu'', ''cuda''] = set [''cuda'', ''cpu'']"
    by auto
  have h2: "\<not> list_ex (sublist ''tensorrt'') (suggest_execution_providers example_env)"
    by (simp add: example_env_def provider_defs)
  have v: "decode_execution_providers example_env [''cpu'', ''cuda''] =
     [''CUDAExecutionProvider'', ''CPUExecutionProvider'']"
    by (simp add: example_env_def provider_defs)
  note t = decode_execution_providers_runtime_order
    [of example_env "[''cpu'', ''cuda'']" "[''cuda'', ''cpu'']" "''tensorrt''"
        "[''cpu'']" "[''cuda'']"]
  from t have a: "subseq (decode_execution_providers example_env [''cpu'', ''cuda''])
     (get_available_providers example_env)"
    by (rule conjunct1)
  have b: "decode_execution_providers example_env [''cpu'', ''cuda''] =
     decode_execution_providers example_env [''cuda'', ''cpu'']"
    by (rule t [THEN conjunct2, THEN conjunct1, THEN mp, OF h1])
  have c: "decode_execution_providers example_env ([''cpu''] @ ''tensorrt'' # [''cuda'']) =
     decode_execution_providers example_env ([''cpu''] @ [''cuda''])"
    by (rule t [THEN conjunct2, THEN conjunct2, THEN mp, OF h2])
  from h1 h2 a v b c show ?thesis
    by (intro conjI)
qed

subsection \<open>The loops and the paths of \<^verbatim>\<open>start\<close>\<close>

lemma pre_start_loop_snd: "snd (pre_start_loop ms) = list_all stage_pre_start ms"
  by (induction ms) (auto split: prod.splits)

lemma pre_start_loop_fst:
  "list_all stage_pre_start ms \<Longrightarrow>
   fst (pre_start_loop ms) = map (\<lambda>m. StagePreStart (NAME m)) ms"
  by (induction ms) (auto split: prod.splits)

lemma pre_start_loop_events:
  "(\<And>n. P (StagePreStart n)) \<Longrightarrow> list_all P (fst (pre_start_loop ms))"
  by (induction ms) (auto split: prod.splits)

lemma pre_check_loop_snd: "snd (pre_check_loop ms) = list_all stage_pre_check ms"
  by (induction ms) (auto split: prod.splits)

lemma pre_check_loop_fst:
  "list_all stage_pre_check ms \<Longrightarrow>
   fst (pre_check_loop ms) = map (\<lambda>m. StagePreCheck (NAME m)) ms"
  by (induction ms) (auto split: prod.splits)

lemma pre_check_loop_events:
  "(\<And>n. P (StagePreCheck n)) \<Longrightarrow> list_all P (fst (pre_check_loop ms))"
  by (induction ms) (auto split: prod.splits)

lemma process_image_loop_events:
  "(\<And>s. P (Print s)) \<Longrightarrow> (\<And>n a b c. P (ProcessImage n a b c)) \<Longrightarrow>
   (\<And>n. P (PostProcess n)) \<Longrightarrow> list_all P (process_image_loop g ms)"
  by (induction ms) (auto simp: update_status_def)

lemma process_video_loop_events:
  "(\<And>s. P (Print s)) \<Longrightarrow> (\<And>n a fs. P (ProcessVideo n a fs)) \<Longrightarrow>
   (\<And>n. P (PostProcess n)) \<Longrightarrow> list_all P (process_video_loop g frames ms)"
  by (induction ms) (auto simp: update_status_def)

lemma start_aborted:
  "\<not> list_all stage_pre_start (get_frame_processors_modules e (frame_processors g)) \<Longrightarrow>
   start e g = fst (pre_start_loop (get_frame_processors_modules e (frame_processors g)))"
  using pre_start_loop_snd [of "get_frame_processors_modules e (frame_processors g)"]
  by (auto simp: start_def Let_def split: prod.splits)

lemma start_image:
  "list_all stage_pre_start (get_frame_processors_modules e (frame_processors g)) \<Longrightarrow>
   has_image_extension e (target_path g) \<Longrightarrow>
   start e g =
     map (\<lambda>m. StagePreStart (NAME m)) (get_frame_processors_modules e (frame_processors g))
     @ [Copy2 (target_path g) (output_path g)]
     @ process_image_loop g (get_frame_processors_modules e (frame_processors g))
     @ validate_image_block e g"
  using pre_start_loop_snd [of "get_frame_processors_modules e (frame_processors g)"]
    pre_start_loop_fst [of "get_frame_processors_modules e (frame_processors g)"]
  by (auto simp: start_def Let_def split: prod.splits)

lemma start_no_frames:
  "list_all stage_pre_start (get_frame_processors_modules e (frame_processors g)) \<Longrightarrow>
   \<not> has_image_extension e (target_path g) \<Longrightarrow>
   get_temp_frame_paths e (target_path g) = [] \<Longrightarrow>
   start e g =
     map (\<lambda>m. StagePreStart (NAME m)) (get_frame_processors_modules e (frame_processors g))
     @ [update_status ''Creating temporary resources...'' CORE, CreateTemp (target_path g)]
     @ extract_frames_block e g
     @ [update_status ''Temporary frames not found...'' CORE]"
  using pre_start_loop_snd [of "get_frame_processors_modules e (frame_processors g)"]
    pre_start_loop_fst [of "get_frame_processors_modules e (frame_processors g)"]
  by (auto simp: start_def Let_def split: prod.splits)

lemma start_video:
  "list_all stage_pre_start (get_frame_processors_modules e (frame_processors g)) \<Longrightarrow>
   \<not> has_image_extension e (target_path g) \<Longrightarrow>
   get_temp_frame_paths e (target_path g) \<noteq> [] \<Longrightarrow>
   start e g =
     map (\<lambda>m. StagePreStart (NAME m)) (get_frame_processors_modules e (frame_processors g))
     @ [update_status ''Creating temporary resources...'' CORE, CreateTemp (target_path g)]
     @ extract_frames_block e g
     @ process_video_loop g (get_temp_frame_paths e (target_path g))
         (get_frame_processors_modules e (frame_processors g))
     @ create_video_block e g
     @ handle_audio_block g
     @ clean_temp_block g
     @ validate_video_block e g"
  using pre_start_loop_snd [of "get_frame_processors_modules e (frame_processors g)"]
    pre_start_loop_fst [of "get_frame_processors_modules e (frame_processors g)"]
  by (auto simp: start_def Let_def split: prod.splits)

subsection \<open>Order of the stages\<close>

lemma stage_work_image_loop:
  "filter stage_work (process_image_loop g ms) =
     concat (map (\<lambda>m. [ProcessImage (NAME m) (source_path g) (output_path g) (output_path g),
                         PostProcess (NAME m)]) ms)"
  by (induction ms) (simp_all add: update_status_def)

lemma stage_work_video_loop:
  "filter stage_work (process_video_loop g frames ms) =
     concat (map (\<lambda>m. [ProcessVideo (NAME m) (source_path g) frames, PostProcess (NAME m)]) ms)"
  by (induction ms) (simp_all add: update_status_def)

lemma stage_work_pre_start: "filter stage_work (fst (pre_start_loop ms)) = []"
  using pre_start_loop_events [of "\<lambda>ev. \<not> stage_work ev" ms]
  by (simp add: filter_empty_conv list_all_iff)

lemma stage_work_blocks:
  "filter stage_work (extract_frames_block e g) = []"
  "filter stage_work (create_video_block e g) = []"
  "filter stage_work (handle_audio_block g) = []"
  "filter stage_work (clean_temp_block g) = []"
  "filter stage_work (validate_video_block e g) = []"
  "filter stage_work (validate_image_block e g) = []"
  by (simp_all add: block_defs Let_def)

text \<open>
  C6. On both paths the calls into the stages after preflight are, in the order in which
  \<^verbatim>\<open>get_frame_processors_modules\<close> lists the stages, the processing call of a stage
  directly followed by its \<^verbatim>\<open>post_process\<close>: the events of stage N all precede those
  of stage N+1, and nothing of another stage falls between a stage's two calls. No stage
  is called when a \<^verbatim>\<open>pre_start\<close> fails or when extraction leaves no frame.
\<close>

theorem stages_run_in_registration_order:
  "filter stage_work (start e g) =
     (let modules = get_frame_processors_modules e (frame_processors g);
          temp_frame_paths = get_temp_frame_paths e (target_path g)
      in if \<not> list_all stage_pre_start modules then []
         else if has_image_extension e (target_path g) then
           concat (map (\<lambda>m. [ProcessImage (NAME m) (source_path g) (output_path g)
                                (output_path g),
                              PostProcess (NAME m)]) modules)
         else if temp_frame_paths = [] then []
         else
           concat (map (\<lambda>m. [ProcessVideo (NAME m) (source_path g) temp_frame_paths,
                              PostProcess (NAME m)]) modules))"
proof -
  let ?ms = "get_frame_processors_modules e (frame_processors g)"
  consider (aborted) "\<not> list_all stage_pre_start ?ms"
    | (image) "list_all stage_pre_start ?ms" "has_image_extension e (target_path g)"
    | (empty) "list_all stage_pre_start ?ms" "\<not> has_image_extension e (target_path g)"
        "get_temp_frame_paths e (target_path g) = []"
    | (video) "list_all stage_pre_start ?ms" "\<not> has_image_extension e (target_path g)"
        "get_temp_frame_paths e (target_path g) \<noteq> []"
    by blast
  then show ?thesis
  proof cases
    case aborted
    then show ?thesis
      by (simp add: start_aborted stage_work_pre_start)
  next
    case image
    then show ?thesis
      by (simp add: start_image stage_work_image_loop stage_work_blocks o_def)
  next
    case empty
    then show ?thesis
      by (simp add: start_no_frames stage_work_blocks o_def update_status_def)
  next
    case video
    then show ?thesis
      by (simp add: start_video stage_work_video_loop stage_work_blocks o_def
            update_status_def)
  qed
qed

theorem stages_run_in_registration_order_witness:
  "filter stage_work (start example_env example_globals) =
     [ProcessVideo ''face_swapper'' (Some ''face.png'') [''0001.jpg'', ''0002.jpg''],
      PostProcess ''face_swapper'',
      ProcessVideo ''face_enhancer'' (Some ''face.png'') [''0001.jpg'', ''0002.jpg''],
      PostProcess ''face_enhancer''] \<and>
   filter stage_work
     (start example_env (example_globals\<lparr>target_path := Some ''photo.jpg''\<rparr>)) =
     [ProcessImage ''face_swapper'' (Some ''face.png'') (Some ''out.mp4'') (Some ''out.mp4''),
      PostProcess ''face_swapper'',
      ProcessImage ''face_enhancer'' (Some ''face.png'') (Some ''out.mp4'') (Some ''out.mp4''),
      PostProcess ''face_enhancer'']"
proof -
  have 1: "filter stage_work (start example_env example_globals) =
     [ProcessVideo ''face_swapper'' (Some ''face.png'') [''0001.jpg'', ''0002.jpg''],
      PostProcess ''face_swapper'',
      ProcessVideo ''face_enhancer'' (Some ''face.png'') [''0001.jpg'', ''0002.jpg''],
      PostProcess ''face_enhancer'']"
    unfolding stages_run_in_registration_order [of example_env example_globals]
    by (simp add: example_env_def example_globals_def Let_def)
  have 2: "filter stage_work
     (start example_env (example_globals\<lparr>target_path := Some ''photo.jpg''\<rparr>)) =
     [ProcessImage ''face_swapper'' (Some ''face.png'') (Some ''out.mp4'') (Some ''out.mp4''),
      PostProcess ''face_swapper'',
      ProcessImage ''face_enhancer'' (Some ''face.png'') (Some ''out.mp4'') (Some ''out.mp4''),
      PostProcess ''face_enhancer'']"
    unfolding stages_run_in_registration_order
      [of example_env "example_globals\<lparr>target_path := Some ''photo.jpg''\<rparr>"]
    by (simp add: example_env_def example_globals_def Let_def)
  from 1 2 show ?thesis by (rule conjI)
qed


subsection \<open>Preflight\<close>

lemma run_parsed:
  "parse_args e c = Inr g \<Longrightarrow>
   run e c =
     Signal_SIGINT # fst (pre_check e) @
     (if snd (pre_check e) then
        fst (pre_check_loop (get_frame_processors_modules e (frame_processors g))) @
        (if list_all stage_pre_check (get_frame_processors_modules e (frame_processors g))
         then LimitResources (limit_resources e g) #
              (if headless g then start e g else [UiInit])
         else [])
      else [])"
  using pre_check_loop_snd [of "get_frame_processors_modules e (frame_processors g)"]
  by (auto simp: run_def split: prod.splits bool.splits)

lemma run_rejected: "parse_args e c = Inl err \<Longrightarrow> run e c = [Signal_SIGINT, SysExit 2]"
  by (simp add: run_def)

lemma no_file_effect_pre_check: "\<not> list_ex file_effect (fst (pre_check e))"
  by (simp add: pre_check_def update_status_def)

lemma no_file_effect_pre_check_loop: "\<not> list_ex file_effect (fst (pre_check_loop ms))"
  using pre_check_loop_events [of "\<lambda>ev. \<not> file_effect ev" ms]
  by (simp add: list_all_iff list_ex_iff)

lemma no_file_effect_pre_start_loop: "\<not> list_ex file_effect (fst (pre_start_loop ms))"
  using pre_start_loop_events [of "\<lambda>ev. \<not> file_effect ev" ms]
  by (simp add: list_all_iff list_ex_iff)

text \<open>
  C5. When some configured stage answers false to \<^verbatim>\<open>pre_check\<close> or to
  \<^verbatim>\<open>pre_start\<close>, the run performs no event that creates the workspace, writes, moves
  or deletes a file, or runs a stage's processing: it ends during preflight.
\<close>

theorem failed_preflight_touches_no_file:
  assumes "parse_args e c = Inr g"
    and "list_ex (\<lambda>m. \<not> stage_pre_check m \<or> \<not> stage_pre_start m)
           (get_frame_processors_modules e (frame_processors g))"
  shows "\<not> list_ex file_effect (run e c)"
proof -
  let ?ms = "get_frame_processors_modules e (frame_processors g)"
  note quiet = no_file_effect_pre_check [of e] no_file_effect_pre_check_loop [of ?ms]
  show ?thesis
  proof (cases "list_all stage_pre_check ?ms")
    case False
    with quiet show ?thesis
      by (simp add: run_parsed [OF assms(1)])
  next
    case True
    with assms(2) have "\<not> list_all stage_pre_start ?ms"
      by (auto simp: list_all_iff list_ex_iff)
    then have "start e g = fst (pre_start_loop ?ms)"
      by (rule start_aborted)
    with no_file_effect_pre_start_loop [of ?ms]
    have "\<not> list_ex file_effect (start e g)"
      by simp
    with quiet show ?thesis
      by (simp add: run_parsed [OF assms(1)])
  qed
qed

text \<open>The second stage of the example refuses to start.\<close>

theorem failed_preflight_touches_no_file_witness:
  "parse_args
     (example_env\<lparr>get_frame_processors_modules :=
        map (\<lambda>name. \<lparr>NAME = name, stage_pre_check = True,
                      stage_pre_start = (name = ''face_swapper'')\<rparr>)\<rparr>)
     example_cmdline = Inr example_globals \<and>
   list_ex (\<lambda>m. \<not> stage_pre_check m \<or> \<not> stage_pre_start m)
     (map (\<lambda>name. \<lparr>NAME = name, stage_pre_check = True,
                    stage_pre_start = (name = ''face_swapper'')\<rparr>)
        (frame_processors example_globals)) \<and>
   \<not> list_ex file_effect
     (run (example_env\<lparr>get_frame_processors_modules :=
             map (\<lambda>name. \<lparr>NAME = name, stage_pre_check = True,
                           stage_pre_start = (name = ''face_swapper'')\<rparr>)\<rparr>)
        example_cmdline)"
proof -
  let ?e = "example_env\<lparr>get_frame_processors_modules :=
        map (\<lambda>name. \<lparr>NAME = name, stage_pre_check = True,
                      stage_pre_start = (name = ''face_swapper'')\<rparr>)\<rparr>"
  have p: "parse_args ?e example_cmdline = Inr example_globals"
    by (simp add: example_env_def example_cmdline_def example_globals_def parse_defs
          provider_defs)
  have s: "list_ex (\<lambda>m. \<not> stage_pre_check m \<or> \<not> stage_pre_start m)
     (map (\<lambda>name. \<lparr>NAME = name, stage_pre_check = True,
                    stage_pre_start = (name = ''face_swapper'')\<rparr>)
        (frame_processors example_globals))"
    by (simp add: example_globals_def)
  then have s': "list_ex (\<lambda>m. \<not> stage_pre_check m \<or> \<not> stage_pre_start m)
     (get_frame_processors_modules ?e (frame_processors example_globals))"
    by simp
  from p s failed_preflight_touches_no_file [OF p s'] show ?thesis
    by (intro conjI)
qed

subsection \<open>The resource limits\<close>

lemma pre_check_passed: "snd (pre_check e) \<Longrightarrow> fst (pre_check e) = []"
  by (simp add: pre_check_def split: if_splits)

lemma pre_check_prints: "(\<And>s. P (Print s)) \<Longrightarrow> list_all P (fst (pre_check e))"
  by (simp add: pre_check_def update_status_def)

text \<open>Every event of \<^verbatim>\<open>start\<close> is a status line, a \<^verbatim>\<open>pre_start\<close> or touches files.\<close>

lemma start_events:
  assumes print: "\<And>s. P (Print s)" and rest: "\<And>ev. after_limit ev \<Longrightarrow> P ev"
  shows "list_all P (start e g)"
proof -
  let ?ms = "get_frame_processors_modules e (frame_processors g)"
  have pre: "list_all P (fst (pre_start_loop ms))" for ms :: "stage list"
    by (rule pre_start_loop_events) (simp add: rest)
  have pre': "list_all P (map (\<lambda>m. StagePreStart (NAME m)) ms)" for ms :: "stage list"
    by (simp add: list_all_iff rest)
  have image_loop: "list_all P (process_image_loop g ms)" for ms :: "stage list"
    by (rule process_image_loop_events) (simp_all add: print rest)
  have video_loop: "list_all P (process_video_loop g frames ms)"
    for frames and ms :: "stage list"
    by (rule process_video_loop_events) (simp_all add: print rest)
  have blocks: "list_all P (extract_frames_block e g)" "list_all P (create_video_block e g)"
    "list_all P (handle_audio_block g)" "list_all P (clean_temp_block g)"
    "list_all P (validate_video_block e g)" "list_all P (validate_image_block e g)"
    by (simp_all add: block_defs Let_def print rest)
  consider (aborted) "\<not> list_all stage_pre_start ?ms"
    | (image) "list_all stage_pre_start ?ms" "has_image_extension e (target_path g)"
    | (empty) "list_all stage_pre_start ?ms" "\<not> has_image_extension e (target_path g)"
        "get_temp_frame_paths e (target_path g) = []"
    | (video) "list_all stage_pre_start ?ms" "\<not> has_image_extension e (target_path g)"
        "get_temp_frame_paths e (target_path g) \<noteq> []"
    by blast
  then show ?thesis
  proof cases
    case aborted
    then show ?thesis by (simp add: start_aborted pre)
  next
    case image
    then show ?thesis
      using pre' [of ?ms] image_loop [of ?ms] by (simp add: start_image blocks rest)
  next
    case empty
    then show ?thesis
      using pre' [of ?ms] by (simp add: start_no_frames blocks rest print update_status_def)
  next
    case video
    then show ?thesis
      using pre' [of ?ms] video_loop [of "get_temp_frame_paths e (target_path g)" ?ms]
      by (simp add: start_video blocks rest print update_status_def)
  qed
qed

lemma start_no_limit_resources: "\<not> list_ex is_limit_resources (start e g)"
proof -
  have "list_all (\<lambda>ev. \<not> is_limit_resources ev) (start e g)"
  proof (rule start_events)
    fix ev
    assume "after_limit ev"
    then show "\<not> is_limit_resources ev" by (cases ev) simp_all
  qed simp
  then show ?thesis by (simp add: list_all_iff list_ex_iff)
qed

lemma start_no_stage_pre_check: "\<not> list_ex is_stage_pre_check (start e g)"
proof -
  have "list_all (\<lambda>ev. \<not> is_stage_pre_check ev) (start e g)"
  proof (rule start_events)
    fix ev
    assume "after_limit ev"
    then show "\<not> is_stage_pre_check ev" by (cases ev) simp_all
  qed simp
  then show ?thesis by (simp add: list_all_iff list_ex_iff)
qed

text \<open>
  C7, as the code has it. A run calls \<^verbatim>\<open>limit_resources\<close> at most once. It calls it
  when the arguments parse, the core's own \<^verbatim>\<open>pre_check\<close> passes and every stage's
  \<^verbatim>\<open>pre_check\<close> passes: then the run is the signal registration, the \<^verbatim>\<open>pre_check\<close>
  of every stage in order, \<^verbatim>\<open>limit_resources\<close>, and a rest without another
  \<^verbatim>\<open>limit_resources\<close> and without a stage \<^verbatim>\<open>pre_check\<close>; every \<^verbatim>\<open>pre_start\<close>
  and every processing call lies in that rest. In every other run it is not called, and
  no \<^verbatim>\<open>pre_start\<close> and nothing that touches files happens either.
\<close>

theorem limit_resources_follows_stage_pre_checks:
  "case parse_args e c of
     Inl err \<Rightarrow> \<not> list_ex is_limit_resources (run e c)
   | Inr g \<Rightarrow>
       if snd (pre_check e) \<and>
          list_all stage_pre_check (get_frame_processors_modules e (frame_processors g))
       then
         \<exists>rest. run e c =
             Signal_SIGINT #
             map (\<lambda>m. StagePreCheck (NAME m))
               (get_frame_processors_modules e (frame_processors g)) @
             LimitResources (limit_resources e g) # rest
           \<and> \<not> list_ex is_limit_resources rest
           \<and> \<not> list_ex is_stage_pre_check rest
       else \<not> list_ex is_limit_resources (run e c) \<and> \<not> list_ex after_limit (run e c)"
proof (cases "parse_args e c")
  case (Inl err)
  then show ?thesis by (simp add: run_rejected)
next
  case (Inr g)
  let ?ms = "get_frame_processors_modules e (frame_processors g)"
  have core: "list_all (\<lambda>ev. \<not> is_limit_resources ev \<and> \<not> after_limit ev) (fst (pre_check e))"
    by (rule pre_check_prints) simp
  have loop: "list_all (\<lambda>ev. \<not> is_limit_resources ev \<and> \<not> after_limit ev)
      (fst (pre_check_loop ?ms))"
    by (rule pre_check_loop_events) simp
  show ?thesis
  proof (cases "snd (pre_check e) \<and> list_all stage_pre_check ?ms")
    case True
    let ?rest = "if headless g then start e g else [UiInit]"
    from True have "run e c =
        Signal_SIGINT # map (\<lambda>m. StagePreCheck (NAME m)) ?ms @
        LimitResources (limit_resources e g) # ?rest"
      by (simp add: run_parsed [OF Inr] pre_check_passed pre_check_loop_fst)
    moreover have "\<not> list_ex is_limit_resources ?rest"
      by (simp add: start_no_limit_resources)
    moreover have "\<not> list_ex is_stage_pre_check ?rest"
      by (simp add: start_no_stage_pre_check)
    ultimately show ?thesis
      using Inr True by auto
  next
    case False
    with core loop
    have quiet: "\<not> list_ex is_limit_resources (run e c) \<and> \<not> list_ex after_limit (run e c)"
      by (auto simp: run_parsed [OF Inr] list_all_iff list_ex_iff)
    show ?thesis
      by (simp only: Inr sum.case if_not_P [OF False] quiet simp_thms)
  qed
qed


theorem limit_resources_follows_stage_pre_checks_witness:
  "parse_args example_env example_cmdline = Inr example_globals \<and>
   snd (pre_check example_env) \<and>
   list_all stage_pre_check
     (get_frame_processors_modules example_env (frame_processors example_globals)) \<and>
   (\<exists>rest. run example_env example_cmdline =
        Signal_SIGINT #
        [StagePreCheck ''face_swapper'', StagePreCheck ''face_enhancer''] @
        LimitResources [Setrlimit_DATA 17179869184] # rest
      \<and> \<not> list_ex is_limit_resources rest
      \<and> \<not> list_ex is_stage_pre_check rest)"
proof -
  have ready: "snd (pre_check example_env) \<and>
     list_all stage_pre_check
       (get_frame_processors_modules example_env (frame_processors example_globals))"
    by (simp add: example_env_def example_globals_def pre_check_def version_lt_def truthy_def)
  have given: "map (\<lambda>m. StagePreCheck (NAME m))
       (get_frame_processors_modules example_env (frame_processors example_globals)) =
     [StagePreCheck ''face_swapper'', StagePreCheck ''face_enhancer'']"
    "limit_resources example_env example_globals = [Setrlimit_DATA 17179869184]"
    by (simp_all add: example_env_def example_globals_def limit_resources_def lower_def
          lower_char_def)
  from limit_resources_follows_stage_pre_checks [of example_env example_cmdline]
  have "\<exists>rest. run example_env example_cmdline =
        Signal_SIGINT #
        [StagePreCheck ''face_swapper'', StagePreCheck ''face_enhancer''] @
        LimitResources [Setrlimit_DATA 17179869184] # rest
      \<and> \<not> list_ex is_limit_resources rest
      \<and> \<not> list_ex is_stage_pre_check rest"
    by (simp only: parse_args_example sum.case if_P [OF ready] given)
  with parse_args_example ready show ?thesis
    by (intro conjI) simp_all
qed

text \<open>
  C7 as the specification words it fails on the code. In the example run both stages are
  asked for their \<^verbatim>\<open>pre_check\<close> before \<^verbatim>\<open>limit_resources\<close> is called; and without
  ffmpeg the run ends with \<^verbatim>\<open>limit_resources\<close> never called.
\<close>

theorem limit_resources_before_pre_check_counterexample:
  "take 4 (run example_env example_cmdline) =
     [Signal_SIGINT, StagePreCheck ''face_swapper'', StagePreCheck ''face_enhancer'',
      LimitResources [Setrlimit_DATA 17179869184]] \<and>
   run (example_env\<lparr>which_ffmpeg := None\<rparr>) example_cmdline =
     [Signal_SIGINT, Print ''[ROOP.CORE] ffmpeg is not installed.'']"
  by (simp add: example_env_def example_cmdline_def parse_defs provider_defs block_defs
        run_defs)

subsection \<open>The frame rate\<close>

lemma parse_args_keep_fps: "parse_args e c = Inr g \<Longrightarrow> keep_fps g"
  by (auto simp: parse_args_def store_true_def Let_def split: if_splits)

lemma at_rate_blocks:
  "keep_fps g \<Longrightarrow>
   list_all (at_rate (Some (detect_fps e (target_path g)))) (extract_frames_block e g)"
  "keep_fps g \<Longrightarrow>
   list_all (at_rate (Some (detect_fps e (target_path g)))) (create_video_block e g)"
  "list_all (at_rate r) (handle_audio_block g)"
  "list_all (at_rate r) (clean_temp_block g)"
  "list_all (at_rate r) (validate_video_block e g)"
  "list_all (at_rate r) (validate_image_block e g)"
  by (simp_all add: block_defs Let_def)

lemma start_at_rate:
  assumes "keep_fps g"
  shows "list_all (at_rate (Some (detect_fps e (target_path g)))) (start e g)"
proof -
  let ?ms = "get_frame_processors_modules e (frame_processors g)"
  let ?P = "at_rate (Some (detect_fps e (target_path g)))"
  have pre: "list_all ?P (fst (pre_start_loop ms))" for ms :: "stage list"
    by (rule pre_start_loop_events) simp
  have pre': "list_all ?P (map (\<lambda>m. StagePreStart (NAME m)) ms)" for ms :: "stage list"
    by (simp add: list_all_iff)
  have image_loop: "list_all ?P (process_image_loop g ms)" for ms :: "stage list"
    by (rule process_image_loop_events) simp_all
  have video_loop: "list_all ?P (process_video_loop g frames ms)"
    for frames and ms :: "stage list"
    by (rule process_video_loop_events) simp_all
  consider (aborted) "\<not> list_all stage_pre_start ?ms"
    | (image) "list_all stage_pre_start ?ms" "has_image_extension e (target_path g)"
    | (empty) "list_all stage_pre_start ?ms" "\<not> has_image_extension e (target_path g)"
        "get_temp_frame_paths e (target_path g) = []"
    | (video) "list_all stage_pre_start ?ms" "\<not> has_image_extension e (target_path g)"
        "get_temp_frame_paths e (target_path g) \<noteq> []"
    by blast
  then show ?thesis
  proof cases
    case aborted
    then show ?thesis by (simp add: start_aborted pre)
  next
    case image
    then show ?thesis
      using pre' [of ?ms] image_loop [of ?ms] by (simp add: start_image at_rate_blocks)
  next
    case empty
    then show ?thesis
      using pre' [of ?ms] assms
      by (simp add: start_no_frames at_rate_blocks update_status_def)
  next
    case video
    then show ?thesis
      using pre' [of ?ms] video_loop [of "get_temp_frame_paths e (target_path g)" ?ms] assms
      by (simp add: start_video at_rate_blocks update_status_def)
  qed
qed

lemma run_at_rate:
  assumes "parse_args e c = Inr g"
  shows "list_all (at_rate (Some (detect_fps e (target_path g)))) (run e c)"
proof -
  let ?P = "at_rate (Some (detect_fps e (target_path g)))"
  have "list_all ?P (fst (pre_check e))"
    by (rule pre_check_prints) simp
  moreover have "list_all ?P
      (fst (pre_check_loop (get_frame_processors_modules e (frame_processors g))))"
    by (rule pre_check_loop_events) simp
  moreover have "list_all ?P (start e g)"
    using assms by (intro start_at_rate parse_args_keep_fps)
  ultimately show ?thesis
    by (simp add: run_parsed [OF assms])
qed

lemma fallback_rate_not_at_rate: "fallback_rate ev \<Longrightarrow> \<not> at_rate (Some r) ev"
  by (cases ev rule: fallback_rate.cases) simp_all

text \<open>
  C10. \<^verbatim>\<open>--keep-fps\<close> is a \<^verbatim>\<open>store_true\<close> flag whose default is already
  \<^verbatim>\<open>True\<close>: whatever the command line holds, the settings \<^verbatim>\<open>parse_args\<close> leaves
  have \<^verbatim>\<open>keep_fps\<close> true. So in a run from the command line every extraction and every
  reassembly is asked for the rate \<^verbatim>\<open>detect_fps\<close> reports for the target, and the two
  calls that leave the rate to the default of 30 never happen.
\<close>

theorem keep_fps_is_always_true:
  "(parse_args e c = Inr g \<longrightarrow>
      keep_fps g \<and> list_all (at_rate (Some (detect_fps e (target_path g)))) (run e c)) \<and>
   \<not> list_ex fallback_rate (run e c)"
proof (intro conjI impI)
  assume "parse_args e c = Inr g"
  then show "keep_fps g"
    by (rule parse_args_keep_fps)
next
  assume "parse_args e c = Inr g"
  then show "list_all (at_rate (Some (detect_fps e (target_path g)))) (run e c)"
    by (rule run_at_rate)
next
  show "\<not> list_ex fallback_rate (run e c)"
  proof (cases "parse_args e c")
    case (Inl err)
    then show ?thesis by (simp add: run_rejected)
  next
    case (Inr g)
    from run_at_rate [OF Inr] show ?thesis
      by (auto simp: list_all_iff list_ex_iff dest: fallback_rate_not_at_rate)
  qed
qed

theorem keep_fps_is_always_true_witness:
  "\<not> arg_keep_fps example_cmdline \<and>
   parse_args example_env example_cmdline = Inr example_globals \<and>
   keep_fps example_globals \<and>
   list_all (at_rate (Some ''24.0'')) (run example_env example_cmdline) \<and>
   \<not> list_ex fallback_rate (run example_env example_cmdline)"
proof -
  note t = keep_fps_is_always_true [of example_env example_cmdline example_globals]
  have absent: "\<not> arg_keep_fps example_cmdline"
    by (simp add: example_cmdline_def)
  have rate: "Some (detect_fps example_env (target_path example_globals)) = Some ''24.0''"
    by (simp add: example_env_def)
  from t [THEN conjunct1, THEN mp, OF parse_args_example]
  have "keep_fps example_globals \<and>
      list_all (at_rate (Some ''24.0'')) (run example_env example_cmdline)"
    by (simp only: rate)
  with absent parse_args_example t [THEN conjunct2] show ?thesis
    by (intro conjI) simp_all
qed

subsection \<open>Reassembly\<close>

text \<open>
  C8. On the video path (every \<^verbatim>\<open>pre_start\<close> passed, no image extension, frames
  found), when \<^verbatim>\<open>create_video\<close> reports failure the run prints
  \<^verbatim>\<open>Creating video failed...\<close> and goes on: the audio step (move of the silent video
  or audio restore), then \<^verbatim>\<open>clean_temp\<close>, then the final verdict.
\<close>

theorem create_video_failure_is_not_fatal:
  assumes "list_all stage_pre_start (get_frame_processors_modules e (frame_processors g))"
    and "\<not> has_image_extension e (target_path g)"
    and "get_temp_frame_paths e (target_path g) \<noteq> []"
    and "\<not> create_video e (target_path g)
            (if keep_fps g then Some (detect_fps e (target_path g)) else None)"
  shows "\<exists>before. start e g =
           before
           @ [CreateVideo (target_path g)
                (if keep_fps g then Some (detect_fps e (target_path g)) else None),
              update_status ''Creating video failed...'' CORE]
           @ (if skip_audio g then
                [MoveTemp (target_path g) (output_path g),
                 update_status ''Skipping audio...'' CORE]
              else
                [update_status
                   (if keep_fps g then ''Restoring audio...''
                    else ''Restoring audio might cause issues as fps are not kept...'') CORE,
                 RestoreAudio (target_path g) (output_path g)])
           @ [update_status ''Cleaning temporary resources...'' CORE,
              CleanTemp (target_path g),
              update_status
                (if is_video e (target_path g) then ''Processing to video succeed!''
                 else ''Processing to video failed!'') CORE]"
proof -
  let ?rate = "if keep_fps g then Some (detect_fps e (target_path g)) else None"
  have "\<exists>announce. create_video_block e g =
      announce # [CreateVideo (target_path g) ?rate,
                  update_status ''Creating video failed...'' CORE]"
    using assms(4) by (cases "keep_fps g") (simp_all add: create_video_block_def Let_def)
  then obtain announce where failed: "create_video_block e g =
      announce # [CreateVideo (target_path g) ?rate,
                  update_status ''Creating video failed...'' CORE]"
    by blast
  let ?before = "map (\<lambda>m. StagePreStart (NAME m))
        (get_frame_processors_modules e (frame_processors g))
     @ [update_status ''Creating temporary resources...'' CORE, CreateTemp (target_path g)]
     @ extract_frames_block e g
     @ process_video_loop g (get_temp_frame_paths e (target_path g))
         (get_frame_processors_modules e (frame_processors g))
     @ [announce]"
  have "start e g =
      ?before
      @ [CreateVideo (target_path g) ?rate, update_status ''Creating video failed...'' CORE]
      @ handle_audio_block g @ clean_temp_block g @ validate_video_block e g"
    by (simp add: start_video [OF assms(1-3)] failed)
  also have "handle_audio_block g =
      (if skip_audio g then
         [MoveTemp (target_path g) (output_path g), update_status ''Skipping audio...'' CORE]
       else
         [update_status
            (if keep_fps g then ''Restoring audio...''
             else ''Restoring audio might cause issues as fps are not kept...'') CORE,
          RestoreAudio (target_path g) (output_path g)])"
    by (simp add: handle_audio_block_def)
  also have "clean_temp_block g @ validate_video_block e g =
      [update_status ''Cleaning temporary resources...'' CORE,
       CleanTemp (target_path g),
       update_status
         (if is_video e (target_path g) then ''Processing to video succeed!''
          else ''Processing to video failed!'') CORE]"
    by (simp add: clean_temp_block_def validate_video_block_def)
  finally show ?thesis
    by blast
qed


theorem create_video_failure_is_not_fatal_witness:
  "list_all stage_pre_start
     (get_frame_processors_modules (example_env\<lparr>create_video := (\<lambda>p rate. False)\<rparr>)
        (frame_processors example_globals)) \<and>
   \<not> has_image_extension (example_env\<lparr>create_video := (\<lambda>p rate. False)\<rparr>)
       (target_path example_globals) \<and>
   get_temp_frame_paths (example_env\<lparr>create_video := (\<lambda>p rate. False)\<rparr>)
       (target_path example_globals) \<noteq> [] \<and>
   \<not> create_video (example_env\<lparr>create_video := (\<lambda>p rate. False)\<rparr>)
       (target_path example_globals) (Some ''24.0'') \<and>
   (\<exists>before. start (example_env\<lparr>create_video := (\<lambda>p rate. False)\<rparr>) example_globals =
      before @
      [CreateVideo (Some ''clip.mp4'') (Some ''24.0''),
       Print ''[ROOP.CORE] Creating video failed...'',
       Print ''[ROOP.CORE] Restoring audio...'',
       RestoreAudio (Some ''clip.mp4'') (Some ''out.mp4''),
       Print ''[ROOP.CORE] Cleaning temporary resources...'',
       CleanTemp (Some ''clip.mp4''),
       Print ''[ROOP.CORE] Processing to video succeed!''])"
proof -
  let ?e = "example_env\<lparr>create_video := (\<lambda>p rate. False)\<rparr>"
  have h1: "list_all stage_pre_start
      (get_frame_processors_modules ?e (frame_processors example_globals))"
    by (simp add: example_env_def example_globals_def)
  have h2: "\<not> has_image_extension ?e (target_path example_globals)"
    by (simp add: example_env_def example_globals_def)
  have h3: "get_temp_frame_paths ?e (target_path example_globals) \<noteq> []"
    by (simp add: example_env_def)
  have h4: "\<not> create_video ?e (target_path example_globals)
      (if keep_fps example_globals
       then Some (detect_fps ?e (target_path example_globals)) else None)"
    by simp
  have h4': "\<not> create_video ?e (target_path example_globals) (Some ''24.0'')"
    by simp
  from create_video_failure_is_not_fatal [OF h1 h2 h3 h4]
  have "\<exists>before. start ?e example_globals =
      before @
      [CreateVideo (Some ''clip.mp4'') (Some ''24.0''),
       Print ''[ROOP.CORE] Creating video failed...'',
       Print ''[ROOP.CORE] Restoring audio...'',
       RestoreAudio (Some ''clip.mp4'') (Some ''out.mp4''),
       Print ''[ROOP.CORE] Cleaning temporary resources...'',
       CleanTemp (Some ''clip.mp4''),
       Print ''[ROOP.CORE] Processing to video succeed!'']"
    by (simp add: example_env_def example_globals_def update_status_def)
  with h1 h2 h3 h4' show ?thesis
    by (intro conjI)
qed

subsection \<open>Interrupt\<close>

text \<open>
  C9. \<^verbatim>\<open>parse_args\<close> installs \<^verbatim>\<open>destroy\<close> as the handler of the interrupt signal
  before anything else happens in a run. The handler, whenever the target path is set
  (a non-empty string), calls \<^verbatim>\<open>clean_temp\<close> on it, without asking whether a workspace
  exists, and then leaves the process with \<^verbatim>\<open>sys.exit()\<close>; with no target path it only
  leaves the process.
\<close>

theorem destroy_cleans_then_exits:
  "(truthy (target_path g) \<longrightarrow> destroy g = [CleanTemp (target_path g), SysExit 0]) \<and>
   (\<not> truthy (target_path g) \<longrightarrow> destroy g = [SysExit 0]) \<and>
   (\<exists>rest. run e c = Signal_SIGINT # rest)"
  by (simp add: destroy_def run_def)

theorem destroy_cleans_then_exits_witness:
  "truthy (target_path example_globals) \<and>
   destroy example_globals = [CleanTemp (Some ''clip.mp4''), SysExit 0] \<and>
   \<not> truthy (target_path (example_globals\<lparr>target_path := None\<rparr>)) \<and>
   destroy (example_globals\<lparr>target_path := None\<rparr>) = [SysExit 0] \<and>
   (\<exists>rest. run example_env example_cmdline = Signal_SIGINT # rest)"
proof -
  have set: "truthy (target_path example_globals)"
    by (simp add: example_globals_def truthy_def)
  have unset: "\<not> truthy (target_path (example_globals\<lparr>target_path := None\<rparr>))"
    by (simp add: truthy_def)
  have path: "target_path example_globals = Some ''clip.mp4''"
    by (simp add: example_globals_def)
  note t1 = destroy_cleans_then_exits [of example_globals example_env example_cmdline]
  note t2 = destroy_cleans_then_exits
    [of "example_globals\<lparr>target_path := None\<rparr>" example_env example_cmdline]
  from t1 [THEN conjunct1, THEN mp, OF set]
  have a: "destroy example_globals = [CleanTemp (Some ''clip.mp4''), SysExit 0]"
    by (simp only: path)
  have b: "destroy (example_globals\<lparr>target_path := None\<rparr>) = [SysExit 0]"
    by (rule t2 [THEN conjunct2, THEN conjunct1, THEN mp, OF unset])
  have c: "\<exists>rest. run example_env example_cmdline = Signal_SIGINT # rest"
    by (rule t1 [THEN conjunct2, THEN conjunct2])
  from set a unset b c show ?thesis
    by (intro conjI)
qed

subsection \<open>No frames\<close>

text \<open>
  C1, evaluated on the code. The example run with an extraction that leaves no frame:
  the workspace is created, \<^verbatim>\<open>Temporary frames not found...\<close> is printed, and
  \<^verbatim>\<open>start\<close> returns there. The run holds no \<^verbatim>\<open>clean_temp\<close>, which the path through
  reassembly and the interrupt handler both call.
\<close>

theorem no_frames_returns_without_clean_temp:
  "run (example_env\<lparr>get_temp_frame_paths := (\<lambda>p. [])\<rparr>) example_cmdline =
     [Signal_SIGINT,
      StagePreCheck ''face_swapper'', StagePreCheck ''face_enhancer'',
      LimitResources [Setrlimit_DATA 17179869184],
      StagePreStart ''face_swapper'', StagePreStart ''face_enhancer'',
      Print ''[ROOP.CORE] Creating temporary resources...'',
      CreateTemp (Some ''clip.mp4''),
      Print ''[ROOP.CORE] Extracting frames with 24.0 FPS...'',
      ExtractFrames (Some ''clip.mp4'') (Some ''24.0''),
      Print ''[ROOP.CORE] Temporary frames not found...''] \<and>
   CleanTemp (Some ''clip.mp4'') \<notin>
     set (run (example_env\<lparr>get_temp_frame_paths := (\<lambda>p. [])\<rparr>) example_cmdline)"
  by (simp add: example_env_def example_cmdline_def parse_defs provider_defs block_defs
        run_defs Let_def)

subsection \<open>The final verdict\<close>

text \<open>The verdict \<^verbatim>\<open>start\<close> prints is decided by the target file alone.\<close>

lemma image_verdict_reads_target:
  assumes "list_all stage_pre_start (get_frame_processors_modules e (frame_processors g))"
    and "has_image_extension e (target_path g)"
  shows "last (start e g) =
     update_status
       (if is_image e (target_path g) then ''Processing to image succeed!''
        else ''Processing to image failed!'') CORE"
  by (simp add: start_image [OF assms] validate_image_block_def)

lemma video_verdict_reads_target:
  assumes "list_all stage_pre_start (get_frame_processors_modules e (frame_processors g))"
    and "\<not> has_image_extension e (target_path g)"
    and "get_temp_frame_paths e (target_path g) \<noteq> []"
  shows "last (start e g) =
     update_status
       (if is_video e (target_path g) then ''Processing to video succeed!''
        else ''Processing to video failed!'') CORE"
  by (simp add: start_video [OF assms] validate_video_block_def)

text \<open>
  C2, evaluated on the code. In the example run with a failing \<^verbatim>\<open>create_video\<close> the
  output \<^verbatim>\<open>out.mp4\<close> is not a video, and the run still ends with
  \<^verbatim>\<open>Processing to video succeed!\<close>, because the check is made on the target
  \<^verbatim>\<open>clip.mp4\<close>. Likewise on the image path: \<^verbatim>\<open>out.jpg\<close> is not an image and the run
  ends with \<^verbatim>\<open>Processing to image succeed!\<close>.
\<close>

theorem success_reported_for_invalid_output:
  "\<not> is_video (example_env\<lparr>create_video := (\<lambda>p rate. False)\<rparr>) (Some ''out.mp4'') \<and>
   run (example_env\<lparr>create_video := (\<lambda>p rate. False)\<rparr>) example_cmdline =
     [Signal_SIGINT,
      StagePreCheck ''face_swapper'', StagePreCheck ''face_enhancer'',
      LimitResources [Setrlimit_DATA 17179869184],
      StagePreStart ''face_swapper'', StagePreStart ''face_enhancer'',
      Print ''[ROOP.CORE] Creating temporary resources...'',
      CreateTemp (Some ''clip.mp4''),
      Print ''[ROOP.CORE] Extracting frames with 24.0 FPS...'',
      ExtractFrames (Some ''clip.mp4'') (Some ''24.0''),
      Print ''[face_swapper] Progressing...'',
      ProcessVideo ''face_swapper'' (Some ''face.png'') [''0001.jpg'', ''0002.jpg''],
      PostProcess ''face_swapper'',
      Print ''[face_enhancer] Progressing...'',
      ProcessVideo ''face_enhancer'' (Some ''face.png'') [''0001.jpg'', ''0002.jpg''],
      PostProcess ''face_enhancer'',
      Print ''[ROOP.CORE] Creating video with 24.0 FPS...'',
      CreateVideo (Some ''clip.mp4'') (Some ''24.0''),
      Print ''[ROOP.CORE] Creating video failed...'',
      Print ''[ROOP.CORE] Restoring audio...'',
      RestoreAudio (Some ''clip.mp4'') (Some ''out.mp4''),
      Print ''[ROOP.CORE] Cleaning temporary resources...'',
      CleanTemp (Some ''clip.mp4''),
      Print ''[ROOP.CORE] Processing to video succeed!''] \<and>
   \<not> is_image example_env (Some ''out.jpg'') \<and>
   run example_env
     (example_cmdline\<lparr>arg_target := Some ''photo.jpg'', arg_output := Some ''out.jpg''\<rparr>) =
     [Signal_SIGINT,
      StagePreCheck ''face_swapper'', StagePreCheck ''face_enhancer'',
      LimitResources [Setrlimit_DATA 17179869184],
      StagePreStart ''face_swapper'', StagePreStart ''face_enhancer'',
      Copy2 (Some ''photo.jpg'') (Some ''out.jpg''),
      Print ''[face_swapper] Progressing...'',
      ProcessImage ''face_swapper'' (Some ''face.png'') (Some ''out.jpg'') (Some ''out.jpg''),
      PostProcess ''face_swapper'',
      Print ''[face_enhancer] Progressing...'',
      ProcessImage ''face_enhancer'' (Some ''face.png'') (Some ''out.jpg'') (Some ''out.jpg''),
      PostProcess ''face_enhancer'',
      Print ''[ROOP.CORE] Processing to image succeed!'']"
  by (simp add: example_env_def example_cmdline_def parse_defs provider_defs block_defs
        run_defs Let_def)

subsection \<open>Requests that match nothing\<close>

lemma parse_args_given_providers:
  assumes "arg_execution_providers c = Some ws" and "parse_args e c = Inr g"
  shows "ws \<noteq> []" and "list_all (\<lambda>w. w \<in> set (suggest_execution_providers e)) ws"
    and "execution_providers g = decode_execution_providers e ws"
  using assms
  by (auto simp: parse_args_def one_or_more_def in_choices_def store_def Let_def
        split: if_splits)

text \<open>
  C4, as the code has it. \<^verbatim>\<open>decode_execution_providers\<close> neither fails nor falls back:
  its result is empty exactly when no requested token occurs in an encoded name of an
  available provider. On the command line a word given to \<^verbatim>\<open>--execution-providers\<close>
  that is not one of the encoded available names is a usage error of \<^verbatim>\<open>argparse\<close>, so a
  request that was given and accepted resolves to at least one provider; without the option
  the default request \<^verbatim>\<open>['cpu']\<close> is resolved as it is, unchecked.
\<close>

theorem provider_resolution_has_no_fallback:
  "(decode_execution_providers e req = [] \<longleftrightarrow>
      \<not> list_ex (\<lambda>encoded. list_ex (\<lambda>t. sublist t encoded) req)
          (suggest_execution_providers e)) \<and>
   (arg_execution_providers c = Some ws \<and>
    \<not> list_all (\<lambda>w. w \<in> set (suggest_execution_providers e)) ws \<longrightarrow>
      parse_args e c = Inl ArgumentError) \<and>
   (arg_execution_providers c = Some ws \<and> parse_args e c = Inr g \<longrightarrow>
      execution_providers g = decode_execution_providers e ws \<and>
      execution_providers g \<noteq> []) \<and>
   (arg_execution_providers c = None \<and> parse_args e c = Inr g \<longrightarrow>
      execution_providers g = decode_execution_providers e [''cpu''])"
proof (intro conjI impI)
  show "decode_execution_providers e req = [] \<longleftrightarrow>
      \<not> list_ex (\<lambda>encoded. list_ex (\<lambda>t. sublist t encoded) req)
          (suggest_execution_providers e)"
    by (rule decode_empty_iff)
next
  assume "arg_execution_providers c = Some ws \<and>
    \<not> list_all (\<lambda>w. w \<in> set (suggest_execution_providers e)) ws"
  then show "parse_args e c = Inl ArgumentError"
    by (simp add: parse_args_def in_choices_def)
next
  assume given: "arg_execution_providers c = Some ws \<and> parse_args e c = Inr g"
  then show "execution_providers g = decode_execution_providers e ws"
    using parse_args_given_providers(3) [of c ws e g] by simp
next
  assume given: "arg_execution_providers c = Some ws \<and> parse_args e c = Inr g"
  then have decoded: "execution_providers g = decode_execution_providers e ws"
    and words: "ws \<noteq> []"
    and chosen: "list_all (\<lambda>w. w \<in> set (suggest_execution_providers e)) ws"
    using parse_args_given_providers [of c ws e g] by simp_all
  from words obtain w where w: "w \<in> set ws"
    by (cases ws) auto
  with chosen have "w \<in> set (suggest_execution_providers e)"
    by (simp add: list_all_iff)
  with w have "list_ex (\<lambda>encoded. list_ex (\<lambda>t. sublist t encoded) ws)
      (suggest_execution_providers e)"
    by (auto simp: list_ex_iff)
  then have "decode_execution_providers e ws \<noteq> []"
    by (simp add: decode_empty_iff)
  with decoded show "execution_providers g \<noteq> []"
    by simp
next
  assume "arg_execution_providers c = None \<and> parse_args e c = Inr g"
  then show "execution_providers g = decode_execution_providers e [''cpu'']"
    by (auto simp: parse_args_def store_def Let_def split: if_splits)
qed

theorem provider_resolution_has_no_fallback_witness:
  "\<not> list_ex (\<lambda>encoded. list_ex (\<lambda>t. sublist t encoded) [''tensorrt''])
       (suggest_execution_providers example_env) \<and>
   decode_execution_providers example_env [''tensorrt''] = [] \<and>
   \<not> list_all (\<lambda>w. w \<in> set (suggest_execution_providers example_env)) [''tensorrt''] \<and>
   parse_args example_env
     (example_cmdline\<lparr>arg_execution_providers := Some [''tensorrt'']\<rparr>) =
     Inl ArgumentError \<and>
   parse_args example_env (example_cmdline\<lparr>arg_execution_providers := Some [''cuda'']\<rparr>) =
     Inr (example_globals\<lparr>execution_providers := [''CUDAExecutionProvider'']\<rparr>) \<and>
   execution_providers (example_globals\<lparr>execution_providers := [''CUDAExecutionProvider'']\<rparr>)
     \<noteq> [] \<and>
   arg_execution_providers example_cmdline = None \<and>
   parse_args example_env example_cmdline = Inr example_globals \<and>
   execution_providers example_globals = decode_execution_providers example_env [''cpu'']"
proof -
  let ?rejected = "example_cmdline\<lparr>arg_execution_providers := Some [''tensorrt'']\<rparr>"
  let ?accepted = "example_cmdline\<lparr>arg_execution_providers := Some [''cuda'']\<rparr>"
  let ?resolved = "example_globals\<lparr>execution_providers := [''CUDAExecutionProvider'']\<rparr>"
  have unmatched: "\<not> list_ex (\<lambda>encoded. list_ex (\<lambda>t. sublist t encoded) [''tensorrt''])
       (suggest_execution_providers example_env)"
    by (simp add: example_env_def provider_defs)
  have unknown:
    "\<not> list_all (\<lambda>w. w \<in> set (suggest_execution_providers example_env)) [''tensorrt'']"
    by (simp add: example_env_def provider_defs)
  have accepted: "parse_args example_env ?accepted = Inr ?resolved"
    by (simp add: example_env_def example_cmdline_def example_globals_def parse_defs
          provider_defs)
  have absent: "arg_execution_providers example_cmdline = None"
    by (simp add: example_cmdline_def)
  note t1 = provider_resolution_has_no_fallback
    [of example_env "[''tensorrt'']" ?rejected "[''tensorrt'']" example_globals]
  note t2 = provider_resolution_has_no_fallback
    [of example_env "[''tensorrt'']" ?accepted "[''cuda'']" ?resolved]
  note t3 = provider_resolution_has_no_fallback
    [of example_env "[''tensorrt'']" example_cmdline "[''cuda'']" example_globals]
  from t1 [THEN conjunct1] unmatched
  have a: "decode_execution_providers example_env [''tensorrt''] = []"
    by (rule iffD2)
  have "arg_execution_providers ?rejected = Some [''tensorrt''] \<and>
      \<not> list_all (\<lambda>w. w \<in> set (suggest_execution_providers example_env)) [''tensorrt'']"
    using unknown by simp
  from t1 [THEN conjunct2, THEN conjunct1, THEN mp, OF this]
  have b: "parse_args example_env ?rejected = Inl ArgumentError" .
  have "arg_execution_providers ?accepted = Some [''cuda''] \<and>
      parse_args example_env ?accepted = Inr ?resolved"
    using accepted by simp
  from t2 [THEN conjunct2, THEN conjunct2, THEN conjunct1, THEN mp, OF this]
  have c: "execution_providers ?resolved \<noteq> []"
    by (rule conjunct2)
  have "arg_execution_providers example_cmdline = None \<and>
      parse_args example_env example_cmdline = Inr example_globals"
    using absent parse_args_example by simp
  from t3 [THEN conjunct2, THEN conjunct2, THEN conjunct2, THEN mp, OF this]
  have d: "execution_providers example_globals =
      decode_execution_providers example_env [''cpu'']" .
  from unmatched a unknown b accepted c absent parse_args_example d show ?thesis
    by (intro conjI)
qed

text \<open>
  C4 as the specification words it fails on the code: a request that matches no available
  provider resolves to the empty list, with neither an error nor a CPU provider in its
  place; and on a runtime that reports only a CUDA provider, a command line without
  \<^verbatim>\<open>--execution-providers\<close> is accepted and leaves the settings with no provider.
\<close>

theorem unmatched_request_resolves_to_nothing_counterexample:
  "decode_execution_providers example_env [''tensorrt''] = [] \<and>
   parse_args (example_env\<lparr>get_available_providers := [''CUDAExecutionProvider'']\<rparr>)
     example_cmdline = Inr (example_globals\<lparr>execution_providers := []\<rparr>)"
  by (simp add: example_env_def example_cmdline_def example_globals_def parse_defs
        provider_defs)

end
